theory Spec2Isabelle
  imports Complex_Main "HOL-Library.AList" "HOL-Library.Multiset"
begin

section \<open>Technical indicators over a price table\<close>

text \<open>
  A shallow embedding of \<^verbatim>\<open>src/technical_indicators.py\<close>: the class
  \<^verbatim>\<open>TechnicalIndicators\<close> and the pandas operations its six \<^verbatim>\<open>calculate_*\<close>
  methods call.

  Numbers. A cell of a numeric column is a float64. The model keeps the special values of
  IEEE 754 that decide the behaviour of the code (NaN, the pandas marker of a missing or
  undefined cell, and the two infinities) and takes every finite value as a real number:
  rounding, overflow of finite arithmetic and the sign of zero are not modelled. Division
  of a non-zero finite number by zero gives the infinity of the sign of the numerator.
\<close>

subsection \<open>float64 cells\<close>

datatype float64 = NaN | Fin real | PInf | MInf

fun fneg :: "float64 \<Rightarrow> float64" where
  "fneg NaN = NaN"
| "fneg (Fin a) = Fin (- a)"
| "fneg PInf = MInf"
| "fneg MInf = PInf"

fun fadd :: "float64 \<Rightarrow> float64 \<Rightarrow> float64" where
  "fadd NaN y = NaN"
| "fadd x NaN = NaN"
| "fadd (Fin a) (Fin b) = Fin (a + b)"
| "fadd (Fin a) y = y"
| "fadd x (Fin b) = x"
| "fadd PInf PInf = PInf"
| "fadd MInf MInf = MInf"
| "fadd PInf MInf = NaN"
| "fadd MInf PInf = NaN"

definition fsub :: "float64 \<Rightarrow> float64 \<Rightarrow> float64" where
  "fsub x y = fadd x (fneg y)"

text \<open>The sign of a non-NaN cell that is not a finite zero.\<close>

fun fpositive :: "float64 \<Rightarrow> bool" where
  "fpositive (Fin a) = (0 < a)"
| "fpositive PInf = True"
| "fpositive x = False"

fun fnegative :: "float64 \<Rightarrow> bool" where
  "fnegative (Fin a) = (a < 0)"
| "fnegative MInf = True"
| "fnegative x = False"

fun fmul :: "float64 \<Rightarrow> float64 \<Rightarrow> float64" where
  "fmul NaN y = NaN"
| "fmul x NaN = NaN"
| "fmul (Fin a) (Fin b) = Fin (a * b)"
| "fmul x y =
     (if x = Fin 0 \<or> y = Fin 0 then NaN
      else if fpositive x = fpositive y then PInf else MInf)"

fun fdiv :: "float64 \<Rightarrow> float64 \<Rightarrow> float64" where
  "fdiv NaN y = NaN"
| "fdiv x NaN = NaN"
| "fdiv (Fin a) (Fin b) =
     (if b \<noteq> 0 then Fin (a / b)
      else if a = 0 then NaN
      else if 0 < a then PInf else MInf)"
| "fdiv (Fin a) y = Fin 0"
| "fdiv x (Fin b) = (if fpositive x = (0 \<le> b) then PInf else MInf)"
| "fdiv x y = NaN"

text \<open>\<^verbatim>\<open>x > 0\<close> and \<^verbatim>\<open>x < 0\<close> on cells: every comparison with NaN is false.\<close>

definition fgt0 :: "float64 \<Rightarrow> bool" where
  "fgt0 x = fpositive x"

definition flt0 :: "float64 \<Rightarrow> bool" where
  "flt0 x = fnegative x"


subsection \<open>Series and frames\<close>

type_synonym series = "float64 list"

text \<open>
  A DataFrame: the \<^verbatim>\<open>Date\<close> index (one entry per row; a date is a day number) and
  the columns in their order, each a list of cells. \<^verbatim>\<open>df[name]\<close> raises
  \<^verbatim>\<open>KeyError\<close> for a name that is no column; \<^verbatim>\<open>df[name] = s\<close> replaces the
  column of that name where it stands, or appends a new column at the end.
\<close>

record frame =
  index :: "int list"
  columns :: "(string \<times> series) list"

datatype error = FileNotFoundError string | KeyError string | ValueError string

definition getitem :: "frame \<Rightarrow> string \<Rightarrow> error + series" where
  "getitem df name =
     (case map_of (columns df) name of
        None \<Rightarrow> Inl (KeyError name)
      | Some s \<Rightarrow> Inr s)"

definition setitem :: "frame \<Rightarrow> string \<Rightarrow> series \<Rightarrow> frame" where
  "setitem df name s = df\<lparr>columns := AList.update name s (columns df)\<rparr>"

text \<open>Every column of a DataFrame has one cell per index entry, and no name twice.\<close>

definition wf_frame :: "frame \<Rightarrow> bool" where
  "wf_frame df \<longleftrightarrow>
     distinct (map fst (columns df)) \<and>
     list_all (\<lambda>c. length (snd c) = length (index df)) (columns df)"

subsection \<open>Rolling windows\<close>

text \<open>
  \<^verbatim>\<open>Series.rolling(window=w)\<close> raises \<^verbatim>\<open>ValueError\<close> for a negative window. Its
  \<^verbatim>\<open>min_periods\<close> is the window itself. The window of row \<open>t\<close> is the rows
  \<open>t + 1 - w, \<dots>, t\<close>, cut at the first row. pandas turns infinite cells into NaN before
  it aggregates, and an aggregate is NaN unless the window holds at least
  \<^verbatim>\<open>min_periods\<close> observations (cells that are not NaN), and at least one.
\<close>

definition rolling :: "int \<Rightarrow> error + nat" where
  "rolling window =
     (if window < 0 then Inl (ValueError ''window must be an integer 0 or greater'')
      else Inr (nat window))"

definition window_at :: "nat \<Rightarrow> 'a list \<Rightarrow> nat \<Rightarrow> 'a list" where
  "window_at w xs t = drop (Suc t - w) (take (Suc t) xs)"

fun observations :: "series \<Rightarrow> real list" where
  "observations [] = []"
| "observations (x # xs) =
     (case x of Fin a \<Rightarrow> a # observations xs | _ \<Rightarrow> observations xs)"

definition rolling_agg :: "(real list \<Rightarrow> float64) \<Rightarrow> nat \<Rightarrow> series \<Rightarrow> series" where
  "rolling_agg agg w xs =
     map (\<lambda>t. let obs = observations (window_at w xs t)
              in if w \<le> length obs \<and> 0 < length obs then agg obs else NaN)
         [0..<length xs]"

definition mean :: "real list \<Rightarrow> real" where
  "mean obs = sum_list obs / real (length obs)"

definition rolling_mean :: "nat \<Rightarrow> series \<Rightarrow> series" where
  "rolling_mean = rolling_agg (\<lambda>obs. Fin (mean obs))"

definition rolling_min :: "nat \<Rightarrow> series \<Rightarrow> series" where
  "rolling_min = rolling_agg (\<lambda>obs. Fin (Min (set obs)))"

definition rolling_max :: "nat \<Rightarrow> series \<Rightarrow> series" where
  "rolling_max = rolling_agg (\<lambda>obs. Fin (Max (set obs)))"

text \<open>\<^verbatim>\<open>std()\<close> is the sample standard deviation (\<^verbatim>\<open>ddof=1\<close>): NaN on one observation.\<close>

definition sample_std :: "real list \<Rightarrow> real" where
  "sample_std obs =
     sqrt (sum_list (map (\<lambda>x. (x - mean obs)\<^sup>2) obs) / (real (length obs) - 1))"

definition rolling_std :: "nat \<Rightarrow> series \<Rightarrow> series" where
  "rolling_std = rolling_agg (\<lambda>obs. if 1 < length obs then Fin (sample_std obs) else NaN)"

subsection \<open>Exponentially weighted mean\<close>

text \<open>
  \<^verbatim>\<open>Series.ewm(span=s, adjust=False)\<close> raises \<^verbatim>\<open>ValueError\<close> for a span below 1;
  the centre of mass is \<open>(s - 1) / 2\<close> and the smoothing factor \<open>1 / (1 + com)\<close>.
  \<^verbatim>\<open>mean()\<close> turns infinite cells into NaN and then runs the loop of pandas'
  \<^verbatim>\<open>ewm\<close> aggregation with \<^verbatim>\<open>adjust=False, ignore_na=False, min_periods=0\<close>:
  \<open>weighted\<close> is the running mean (NaN until the first observation) and \<open>old_wt\<close>
  the weight of the running mean, which decays over every row and is reset to 1 at every
  observation. (pandas skips the update at an observation equal to the running mean;
  over the reals the update leaves the mean as it is there.)
\<close>

definition ewm :: "int \<Rightarrow> error + real" where
  "ewm span_arg =
     (if span_arg < 1 then Inl (ValueError ''span must satisfy: span >= 1'')
      else Inr (1 / (1 + (real_of_int span_arg - 1) / 2)))"

fun prep_value :: "float64 \<Rightarrow> float64" where
  "prep_value (Fin a) = Fin a"
| "prep_value x = NaN"

fun ewm_loop :: "real \<Rightarrow> float64 \<Rightarrow> real \<Rightarrow> series \<Rightarrow> series" where
  "ewm_loop alpha weighted old_wt [] = []"
| "ewm_loop alpha weighted old_wt (cur # rest) =
     (case weighted of
        Fin wgt \<Rightarrow>
          (let old_wt' = old_wt * (1 - alpha) in
           case cur of
             Fin c \<Rightarrow>
               (let wgt' = (old_wt' * wgt + alpha * c) / (old_wt' + alpha)
                in Fin wgt' # ewm_loop alpha (Fin wgt') 1 rest)
           | _ \<Rightarrow> Fin wgt # ewm_loop alpha (Fin wgt) old_wt' rest)
      | _ \<Rightarrow>
          (case cur of
             Fin c \<Rightarrow> Fin c # ewm_loop alpha (Fin c) old_wt rest
           | _ \<Rightarrow> NaN # ewm_loop alpha NaN old_wt rest))"

definition ewm_mean :: "real \<Rightarrow> series \<Rightarrow> series" where
  "ewm_mean alpha xs =
     (case map prep_value xs of
        [] \<Rightarrow> []
      | x # rest \<Rightarrow> x # ewm_loop alpha x 1 rest)"

subsection \<open>Differences and masks\<close>

text \<open>
  \<^verbatim>\<open>Series.diff()\<close>: NaN in the first row, then the difference to the row before.
  \<^verbatim>\<open>s.where(cond, other)\<close> keeps the cells where the condition holds and puts
  \<^verbatim>\<open>other\<close> elsewhere; a NaN cell fails every comparison, so it is replaced.
\<close>

definition diff :: "series \<Rightarrow> series" where
  "diff xs = (case xs of [] \<Rightarrow> [] | x # rest \<Rightarrow> NaN # map2 fsub rest xs)"

definition series_where :: "(float64 \<Rightarrow> bool) \<Rightarrow> float64 \<Rightarrow> series \<Rightarrow> series" where
  "series_where cond other xs = map (\<lambda>x. if cond x then x else other) xs"

subsection \<open>Rendering a window in a column name\<close>

text \<open>\<^verbatim>\<open>f"SMA_{window}"\<close> renders the integer in decimal, as \<^verbatim>\<open>str\<close> does.\<close>

definition digit :: "nat \<Rightarrow> char" where
  "digit d = ''0123456789'' ! d"

function str_nat :: "nat \<Rightarrow> string" where
  "str_nat n = (if n < 10 then [digit n] else str_nat (n div 10) @ [digit (n mod 10)])"
  by pat_completeness auto
termination
  by (relation "measure id") auto

definition str :: "int \<Rightarrow> string" where
  "str i = (if i < 0 then CHR ''-'' # str_nat (nat (- i)) else str_nat (nat i))"

subsection \<open>The class\<close>

record indicators =
  file_path :: string
  data :: frame

text \<open>
  A method either returns or raises; both leave the object in a state. The state of a
  raise is the object as the exception found it.
\<close>

datatype outcome = Returned indicators | Raised error indicators

definition calculate_sma :: "int \<Rightarrow> indicators \<Rightarrow> outcome" where
  "calculate_sma window self =
     (case getitem (data self) ''Close'' of
        Inl e \<Rightarrow> Raised e self
      | Inr close \<Rightarrow>
          (case rolling window of
             Inl e \<Rightarrow> Raised e self
           | Inr w \<Rightarrow>
               Returned (self\<lparr>data :=
                 setitem (data self) (''SMA_'' @ str window) (rolling_mean w close)\<rparr>)))"

definition calculate_ema :: "int \<Rightarrow> indicators \<Rightarrow> outcome" where
  "calculate_ema window self =
     (case getitem (data self) ''Close'' of
        Inl e \<Rightarrow> Raised e self
      | Inr close \<Rightarrow>
          (case ewm window of
             Inl e \<Rightarrow> Raised e self
           | Inr alpha \<Rightarrow>
               Returned (self\<lparr>data :=
                 setitem (data self) (''EMA_'' @ str window) (ewm_mean alpha close)\<rparr>)))"

definition rsi_of_rs :: "float64 \<Rightarrow> float64" where
  "rsi_of_rs rs = fsub (Fin 100) (fdiv (Fin 100) (fadd (Fin 1) rs))"

text \<open>
  The locals \<^verbatim>\<open>gain\<close> and \<^verbatim>\<open>loss\<close> of \<^verbatim>\<open>calculate_rsi\<close>, as functions of the
  window and of \<^verbatim>\<open>delta\<close>. The unary minus of \<^verbatim>\<open>-delta.where(delta < 0, 0)\<close>
  applies to the masked series.
\<close>

definition gain :: "nat \<Rightarrow> series \<Rightarrow> series" where
  "gain w delta = rolling_mean w (series_where fgt0 (Fin 0) delta)"

definition loss :: "nat \<Rightarrow> series \<Rightarrow> series" where
  "loss w delta = rolling_mean w (map fneg (series_where flt0 (Fin 0) delta))"

definition calculate_rsi :: "int \<Rightarrow> indicators \<Rightarrow> outcome" where
  "calculate_rsi window self =
     (case getitem (data self) ''Close'' of
        Inl e \<Rightarrow> Raised e self
      | Inr close \<Rightarrow>
          (let delta = diff close in
           case rolling window of
             Inl e \<Rightarrow> Raised e self
           | Inr w \<Rightarrow>
               (let rs = map2 fdiv (gain w delta) (loss w delta)
                in Returned (self\<lparr>data :=
                     setitem (data self) ''RSI'' (map rsi_of_rs rs)\<rparr>))))"

definition percent_k :: "series \<Rightarrow> series \<Rightarrow> series \<Rightarrow> series" where
  "percent_k close low_min high_max =
     map (\<lambda>q. fmul q (Fin 100))
       (map2 fdiv (map2 fsub close low_min) (map2 fsub high_max low_min))"

definition calculate_stochastic_oscillator :: "int \<Rightarrow> int \<Rightarrow> indicators \<Rightarrow> outcome" where
  "calculate_stochastic_oscillator k_window d_window self =
     (case getitem (data self) ''Low'' of
        Inl e \<Rightarrow> Raised e self
      | Inr low \<Rightarrow>
     (case rolling k_window of
        Inl e \<Rightarrow> Raised e self
      | Inr k \<Rightarrow>
     (let low_min = rolling_min k low in
      case getitem (data self) ''High'' of
        Inl e \<Rightarrow> Raised e self
      | Inr high \<Rightarrow>
     (let high_max = rolling_max k high in
      case getitem (data self) ''Close'' of
        Inl e \<Rightarrow> Raised e self
      | Inr close \<Rightarrow>
     (let self1 = self\<lparr>data :=
            setitem (data self) ''%K'' (percent_k close low_min high_max)\<rparr> in
      case getitem (data self1) ''%K'' of
        Inl e \<Rightarrow> Raised e self1
      | Inr pk \<Rightarrow>
     (case rolling d_window of
        Inl e \<Rightarrow> Raised e self1
      | Inr d \<Rightarrow>
          Returned (self1\<lparr>data :=
            setitem (data self1) ''%D'' (rolling_mean d pk)\<rparr>)))))))"

definition calculate_macd :: "int \<Rightarrow> int \<Rightarrow> int \<Rightarrow> indicators \<Rightarrow> outcome" where
  "calculate_macd short_window long_window signal_window self =
     (case getitem (data self) ''Close'' of
        Inl e \<Rightarrow> Raised e self
      | Inr close \<Rightarrow>
     (case ewm short_window of
        Inl e \<Rightarrow> Raised e self
      | Inr alpha_short \<Rightarrow>
     (let short_ema = ewm_mean alpha_short close in
      case ewm long_window of
        Inl e \<Rightarrow> Raised e self
      | Inr alpha_long \<Rightarrow>
     (let long_ema = ewm_mean alpha_long close;
          self1 = self\<lparr>data :=
            setitem (data self) ''MACD'' (map2 fsub short_ema long_ema)\<rparr> in
      case getitem (data self1) ''MACD'' of
        Inl e \<Rightarrow> Raised e self1
      | Inr macd \<Rightarrow>
     (case ewm signal_window of
        Inl e \<Rightarrow> Raised e self1
      | Inr alpha_signal \<Rightarrow>
          Returned (self1\<lparr>data :=
            setitem (data self1) ''MACD_Signal'' (ewm_mean alpha_signal macd)\<rparr>))))))"

definition calculate_bollinger_bands :: "int \<Rightarrow> int \<Rightarrow> indicators \<Rightarrow> outcome" where
  "calculate_bollinger_bands window num_std self =
     (case getitem (data self) ''Close'' of
        Inl e \<Rightarrow> Raised e self
      | Inr close \<Rightarrow>
     (case rolling window of
        Inl e \<Rightarrow> Raised e self
      | Inr w \<Rightarrow>
     (let sma = rolling_mean w close;
          std_dev = rolling_std w close;
          spread = map (fmul (Fin (real_of_int num_std))) std_dev;
          self1 = self\<lparr>data :=
            setitem (data self) ''Bollinger_Upper'' (map2 fadd sma spread)\<rparr>
      in Returned (self1\<lparr>data :=
           setitem (data self1) ''Bollinger_Lower'' (map2 fsub sma spread)\<rparr>))))"

text \<open>
  \<^verbatim>\<open>__init__\<close> raises \<^verbatim>\<open>FileNotFoundError\<close> for a path that does not exist and
  otherwise keeps what \<^verbatim>\<open>pd.read_csv\<close> returns. The file system and the parser are
  parameters.
\<close>

definition init :: "(string \<Rightarrow> bool) \<Rightarrow> (string \<Rightarrow> error + frame) \<Rightarrow> string \<Rightarrow> error + indicators" where
  "init path_exists read_csv path =
     (if \<not> path_exists path then Inl (FileNotFoundError path)
      else case read_csv path of
             Inl e \<Rightarrow> Inl e
           | Inr df \<Rightarrow> Inr \<lparr>file_path = path, data = df\<rparr>)"

subsection \<open>Calls\<close>

text \<open>
  A call of one of the six \<^verbatim>\<open>calculate_*\<close> methods with its arguments, and the state
  in which a call leaves the object.
\<close>

datatype call =
  SMA int
| EMA int
| RSI int
| Stochastic int int
| MACD int int int
| Bollinger int int

fun run :: "call \<Rightarrow> indicators \<Rightarrow> outcome" where
  "run (SMA window) self = calculate_sma window self"
| "run (EMA window) self = calculate_ema window self"
| "run (RSI window) self = calculate_rsi window self"
| "run (Stochastic k_window d_window) self =
     calculate_stochastic_oscillator k_window d_window self"
| "run (MACD short_window long_window signal_window) self =
     calculate_macd short_window long_window signal_window self"
| "run (Bollinger window num_std) self = calculate_bollinger_bands window num_std self"

fun state_of :: "outcome \<Rightarrow> indicators" where
  "state_of (Returned self) = self"
| "state_of (Raised e self) = self"

text \<open>
  The columns a call reads from the table it is given, in the order of the reads, the
  columns it assigns, and the arguments that \<^verbatim>\<open>rolling\<close> and \<^verbatim>\<open>ewm\<close> accept.
\<close>

fun required_columns :: "call \<Rightarrow> string list" where
  "required_columns (Stochastic k_window d_window) = [''Low'', ''High'', ''Close'']"
| "required_columns c = [''Close'']"

fun targets :: "call \<Rightarrow> string list" where
  "targets (SMA window) = [''SMA_'' @ str window]"
| "targets (EMA window) = [''EMA_'' @ str window]"
| "targets (RSI window) = [''RSI'']"
| "targets (Stochastic k_window d_window) = [''%K'', ''%D'']"
| "targets (MACD short_window long_window signal_window) = [''MACD'', ''MACD_Signal'']"
| "targets (Bollinger window num_std) = [''Bollinger_Upper'', ''Bollinger_Lower'']"

fun valid_params :: "call \<Rightarrow> bool" where
  "valid_params (SMA window) = (0 \<le> window)"
| "valid_params (EMA window) = (1 \<le> window)"
| "valid_params (RSI window) = (0 \<le> window)"
| "valid_params (Stochastic k_window d_window) = (0 \<le> k_window \<and> 0 \<le> d_window)"
| "valid_params (MACD short_window long_window signal_window) =
     (1 \<le> short_window \<and> 1 \<le> long_window \<and> 1 \<le> signal_window)"
| "valid_params (Bollinger window num_std) = (0 \<le> window)"

text \<open>
  A script such as the \<^verbatim>\<open>__main__\<close> block calls the methods one after the other on
  one object; the first exception ends it.
\<close>

fun run_all :: "call list \<Rightarrow> indicators \<Rightarrow> outcome" where
  "run_all [] self = Returned self"
| "run_all (c # cs) self =
     (case run c self of
        Returned self' \<Rightarrow> run_all cs self'
      | Raised e self' \<Rightarrow> Raised e self')"

fun same_operation :: "call \<Rightarrow> call \<Rightarrow> bool" where
  "same_operation (SMA w) (SMA w') = True"
| "same_operation (EMA w) (EMA w') = True"
| "same_operation (RSI w) (RSI w') = True"
| "same_operation (Stochastic k d) (Stochastic k' d') = True"
| "same_operation (MACD s l g) (MACD s' l' g') = True"
| "same_operation (Bollinger w k) (Bollinger w' k') = True"
| "same_operation c c' = False"

fun different_operations :: "call list \<Rightarrow> bool" where
  "different_operations [] = True"
| "different_operations (c # cs) =
     (list_all (\<lambda>c'. \<not> same_operation c c') cs \<and> different_operations cs)"

text \<open>
  The columns that a returning call assigns, in the order of the assignments, as a
  function of the table it is given, and the assignments applied to a table.
\<close>

definition column :: "frame \<Rightarrow> string \<Rightarrow> series" where
  "column df name = (case getitem df name of Inl e \<Rightarrow> [] | Inr xs \<Rightarrow> xs)"

fun written :: "call \<Rightarrow> frame \<Rightarrow> (string \<times> series) list" where
  "written (SMA window) df =
     [(''SMA_'' @ str window, rolling_mean (nat window) (column df ''Close''))]"
| "written (EMA window) df =
     [(''EMA_'' @ str window,
       ewm_mean (2 / (real_of_int window + 1)) (column df ''Close''))]"
| "written (RSI window) df =
     [(''RSI'', map rsi_of_rs
        (map2 fdiv (gain (nat window) (diff (column df ''Close'')))
                   (loss (nat window) (diff (column df ''Close'')))))]"
| "written (Stochastic k_window d_window) df =
     (let pk = percent_k (column df ''Close'')
                 (rolling_min (nat k_window) (column df ''Low''))
                 (rolling_max (nat k_window) (column df ''High''))
      in [(''%K'', pk), (''%D'', rolling_mean (nat d_window) pk)])"
| "written (MACD short_window long_window signal_window) df =
     (let macd = map2 fsub
                   (ewm_mean (2 / (real_of_int short_window + 1)) (column df ''Close''))
                   (ewm_mean (2 / (real_of_int long_window + 1)) (column df ''Close''))
      in [(''MACD'', macd),
          (''MACD_Signal'', ewm_mean (2 / (real_of_int signal_window + 1)) macd)])"
| "written (Bollinger window num_std) df =
     (let sma = rolling_mean (nat window) (column df ''Close'');
          spread = map (fmul (Fin (real_of_int num_std)))
                     (rolling_std (nat window) (column df ''Close''))
      in [(''Bollinger_Upper'', map2 fadd sma spread),
          (''Bollinger_Lower'', map2 fsub sma spread)])"

definition assign_all :: "(string \<times> series) list \<Rightarrow> frame \<Rightarrow> frame" where
  "assign_all ws df = fold (\<lambda>(name, s) d. setitem d name s) ws df"

definition has_column :: "frame \<Rightarrow> string \<Rightarrow> bool" where
  "has_column df name \<longleftrightarrow> map_of (columns df) name \<noteq> None"


text \<open>Two tables with the same price columns.\<close>

definition same_inputs :: "frame \<Rightarrow> frame \<Rightarrow> bool" where
  "same_inputs df df' \<longleftrightarrow>
     (\<forall>name\<in>{''Low'', ''High'', ''Close''}. map_of (columns df) name = map_of (columns df') name)"



subsection \<open>Reading a series by row numbers\<close>




section \<open>Properties\<close>

subsection \<open>Frames and rolling windows\<close>







lemma length_rolling_agg: "length (rolling_agg agg w xs) = length xs"
  by (simp add: rolling_agg_def)

lemma getitem_setitem_same: "getitem (setitem df name s) name = Inr s"
  by (simp add: getitem_def setitem_def update_conv')


lemma index_setitem: "index (setitem df name s) = index df"
  by (simp add: setitem_def)



subsection \<open>Simple moving average\<close>



subsection \<open>Exponential moving average\<close>

lemma ewm_ok: "1 \<le> w \<Longrightarrow> ewm w = Inr (2 / (real_of_int w + 1))"
  by (simp add: ewm_def field_simps)

lemma length_ewm_loop: "length (ewm_loop a wgt old xs) = length xs"
  by (induction xs arbitrary: wgt old) (auto split: float64.splits simp: Let_def)

lemma length_ewm_mean: "length (ewm_mean a xs) = length xs"
  by (simp add: ewm_mean_def length_ewm_loop split: list.splits) (metis length_Cons length_map)










subsection \<open>MACD\<close>






subsection \<open>Relative strength index\<close>

lemma length_diff: "length (diff xs) = length xs"
  by (cases xs) (simp_all add: diff_def)






lemma length_series_where: "length (series_where cond other xs) = length xs"
  by (simp add: series_where_def)







text \<open>
  A zero mean of the losses can be a negative zero in the machine, which turns the
  quotient into minus infinity; the RSI cell is the same for both infinities.
\<close>

lemma rsi_of_rs_infinite: "rsi_of_rs PInf = Fin 100" "rsi_of_rs MInf = Fin 100"
  by (simp_all add: rsi_of_rs_def fsub_def)






lemma length_gain: "length (gain w delta) = length delta"
  by (simp add: gain_def rolling_mean_def length_rolling_agg length_series_where)

lemma length_loss: "length (loss w delta) = length delta"
  by (simp add: loss_def rolling_mean_def length_rolling_agg length_series_where)


















subsection \<open>Stochastic oscillator\<close>













subsection \<open>Bollinger bands\<close>










subsection \<open>Errors\<close>

lemma init_outcome:
  "init path_exists read_csv path = Inl e \<longleftrightarrow>
     (\<not> path_exists path \<and> e = FileNotFoundError path) \<or>
     (path_exists path \<and> read_csv path = Inl e)"
  by (auto simp: init_def split: sum.splits)

lemma getitem_cases:
  "(\<not> has_column df name \<and> getitem df name = Inl (KeyError name)) \<or>
   (has_column df name \<and> (\<exists>xs. getitem df name = Inr xs))"
  by (cases "map_of (columns df) name") (simp_all add: getitem_def has_column_def)

lemma rolling_cases:
  "(window < 0 \<and> (\<exists>msg. rolling window = Inl (ValueError msg))) \<or>
   (0 \<le> window \<and> rolling window = Inr (nat window))"
  by (auto simp: rolling_def)

lemma ewm_cases:
  "(w < 1 \<and> (\<exists>msg. ewm w = Inl (ValueError msg))) \<or>
   (1 \<le> w \<and> ewm w = Inr (2 / (real_of_int w + 1)))"
  using ewm_ok [of w] by (auto simp: ewm_def)





subsection \<open>What a call changes\<close>

lemma getitem_column: "getitem df name = Inr xs \<Longrightarrow> column df name = xs"
  by (simp add: column_def)

lemma run_returned_iff:
  "run c self = Returned self' \<longleftrightarrow>
     list_all (has_column (data self)) (required_columns c) \<and> valid_params c \<and>
     self' = self\<lparr>data := assign_all (written c (data self)) (data self)\<rparr>"
proof (cases c)
  case (SMA window)
  show ?thesis
    using getitem_cases [of "data self" "''Close''"] rolling_cases [of window]
    by (auto simp: SMA calculate_sma_def assign_all_def getitem_column)
next
  case (EMA window)
  show ?thesis
    using getitem_cases [of "data self" "''Close''"] ewm_cases [of window]
    by (auto simp: EMA calculate_ema_def assign_all_def getitem_column)
next
  case (RSI window)
  show ?thesis
    using getitem_cases [of "data self" "''Close''"] rolling_cases [of window]
    by (auto simp: RSI calculate_rsi_def Let_def assign_all_def getitem_column)
next
  case (Stochastic k d)
  show ?thesis
    using getitem_cases [of "data self" "''Close''"] getitem_cases [of "data self" "''Low''"]
      getitem_cases [of "data self" "''High''"] rolling_cases [of k] rolling_cases [of d]
    by (auto simp: Stochastic calculate_stochastic_oscillator_def Let_def getitem_setitem_same
        assign_all_def getitem_column)
next
  case (MACD sw lw gw)
  show ?thesis
    using getitem_cases [of "data self" "''Close''"] ewm_cases [of sw] ewm_cases [of lw]
      ewm_cases [of gw]
    by (auto simp: MACD calculate_macd_def Let_def getitem_setitem_same assign_all_def
        getitem_column)
next
  case (Bollinger window k)
  show ?thesis
    using getitem_cases [of "data self" "''Close''"] rolling_cases [of window]
    by (auto simp: Bollinger calculate_bollinger_bands_def Let_def assign_all_def
        getitem_column)
qed

lemma targets_written: "map fst (written c df) = targets c"
  by (cases c) (simp_all add: Let_def)

lemma inputs_not_targets:
  "name \<in> {''Open'', ''High'', ''Low'', ''Close'', ''Volume''} \<Longrightarrow> name \<notin> set (targets c)"
  by (cases c) auto

lemma filter_update:
  "k \<in> K \<Longrightarrow> filter (\<lambda>p. fst p \<notin> K) (AList.update k v al) = filter (\<lambda>p. fst p \<notin> K) al"
  by (induction al) auto

lemma others_setitem:
  "name \<in> K \<Longrightarrow>
   filter (\<lambda>p. fst p \<notin> K) (columns (setitem df name v)) = filter (\<lambda>p. fst p \<notin> K) (columns df)"
  by (simp add: setitem_def filter_update)

lemma run_frame:
  "file_path (state_of (run c self)) = file_path self \<and>
   index (data (state_of (run c self))) = index (data self) \<and>
   filter (\<lambda>p. fst p \<notin> set (targets c)) (columns (data (state_of (run c self)))) =
   filter (\<lambda>p. fst p \<notin> set (targets c)) (columns (data self))"
proof (cases c)
  case (SMA window)
  have r: "run c self = calculate_sma window self"
    and t: "''SMA_'' @ str window \<in> set (targets c)"
    by (simp_all add: SMA)
  show ?thesis
    unfolding r using t
    by (simp add: calculate_sma_def others_setitem index_setitem split: sum.splits)
next
  case (EMA window)
  have r: "run c self = calculate_ema window self"
    and t: "''EMA_'' @ str window \<in> set (targets c)"
    by (simp_all add: EMA)
  show ?thesis
    unfolding r using t
    by (simp add: calculate_ema_def others_setitem index_setitem split: sum.splits)
next
  case (RSI window)
  have r: "run c self = calculate_rsi window self"
    and t: "''RSI'' \<in> set (targets c)"
    by (simp_all add: RSI)
  show ?thesis
    unfolding r using t
    by (simp add: calculate_rsi_def Let_def others_setitem index_setitem split: sum.splits)
next
  case (Stochastic k d)
  have r: "run c self = calculate_stochastic_oscillator k d self"
    and t: "''%K'' \<in> set (targets c)" "''%D'' \<in> set (targets c)"
    by (simp_all add: Stochastic)
  show ?thesis
    unfolding r using t
    by (simp add: calculate_stochastic_oscillator_def Let_def others_setitem
        index_setitem split: sum.splits)
next
  case (MACD sw lw gw)
  have r: "run c self = calculate_macd sw lw gw self"
    and t: "''MACD'' \<in> set (targets c)" "''MACD_Signal'' \<in> set (targets c)"
    by (simp_all add: MACD)
  show ?thesis
    unfolding r using t
    by (simp add: calculate_macd_def Let_def others_setitem index_setitem
        split: sum.splits)
next
  case (Bollinger window k)
  have r: "run c self = calculate_bollinger_bands window k self"
    and t: "''Bollinger_Upper'' \<in> set (targets c)" "''Bollinger_Lower'' \<in> set (targets c)"
    by (simp_all add: Bollinger)
  show ?thesis
    unfolding r using t
    by (simp add: calculate_bollinger_bands_def Let_def others_setitem
        index_setitem split: sum.splits)
qed

lemma wf_getitem:
  "wf_frame df \<Longrightarrow> getitem df name = Inr xs \<Longrightarrow> length xs = length (index df)"
  by (auto simp: wf_frame_def getitem_def list_all_iff split: option.splits dest!: map_of_SomeD)

lemma wf_setitem:
  assumes "wf_frame df" and "length v = length (index df)"
  shows "wf_frame (setitem df name v)"
proof -
  have "list_all (\<lambda>c. length (snd c) = n) (AList.update name v al)"
    if "list_all (\<lambda>c. length (snd c) = n) al" "length v = n" for al n
    using that by (induction al) auto
  then show ?thesis
    using assms by (simp add: wf_frame_def setitem_def distinct_update)
qed

lemma length_rolling [simp]:
  "length (rolling_mean w xs) = length xs" "length (rolling_min w xs) = length xs"
  "length (rolling_max w xs) = length xs" "length (rolling_std w xs) = length xs"
  by (simp_all add: rolling_mean_def rolling_min_def rolling_max_def rolling_std_def
      length_rolling_agg)

lemma run_wf:
  assumes "wf_frame (data self)"
  shows "wf_frame (data (state_of (run c self)))"
proof -
  note len = wf_getitem [OF assms, of "''Close''"] wf_getitem [OF assms, of "''Low''"]
    wf_getitem [OF assms, of "''High''"]
  note set = wf_setitem
  show ?thesis
  proof (cases c)
    case (SMA window)
    show ?thesis
      using assms
      by (auto simp: SMA calculate_sma_def split: sum.splits intro!: set simp: len)
  next
    case (EMA window)
    show ?thesis
      using assms
      by (auto simp: EMA calculate_ema_def length_ewm_mean split: sum.splits
          intro!: set simp: len)
  next
    case (RSI window)
    show ?thesis
      using assms
      by (auto simp: RSI calculate_rsi_def Let_def length_gain length_loss length_diff
          split: sum.splits intro!: set simp: len)
  next
    case (Stochastic k d)
    show ?thesis
      using assms
      by (auto simp: Stochastic calculate_stochastic_oscillator_def Let_def percent_k_def
          index_setitem getitem_setitem_same split: sum.splits intro!: set simp: len)
  next
    case (MACD sw lw gw)
    show ?thesis
      using assms
      by (auto simp: MACD calculate_macd_def Let_def length_ewm_mean index_setitem
          getitem_setitem_same split: sum.splits intro!: set simp: len)
  next
    case (Bollinger window k)
    show ?thesis
      using assms
      by (auto simp: Bollinger calculate_bollinger_bands_def Let_def index_setitem
          split: sum.splits intro!: set simp: len)
  qed
qed


lemma index_assign_all: "index (assign_all ws df) = index df"
  unfolding assign_all_def
  by (induction ws arbitrary: df) (auto simp: index_setitem)

lemma map_of_assign_all:
  "map_of (columns (assign_all ws df)) = map_of (columns df) ++ map_of (rev ws)"
  unfolding assign_all_def
proof (induction ws arbitrary: df)
  case Nil
  show ?case by simp
next
  case (Cons w ws)
  obtain name v where w: "w = (name, v)" by (cases w)
  have "map_of (columns (setitem df name v)) = map_of (columns df) ++ [name \<mapsto> v]"
    by (simp add: setitem_def update_conv')
  moreover have "map_of (rev (w # ws)) = [name \<mapsto> v] ++ map_of (rev ws)"
    by (simp add: w)
  moreover have "fold (\<lambda>(name, s) d. setitem d name s) (w # ws) df =
      fold (\<lambda>(name, s) d. setitem d name s) ws (setitem df name v)"
    by (simp add: w)
  ultimately show ?case
    using Cons [of "setitem df name v"] by (simp only: map_add_assoc)
qed

lemma dom_written: "dom (map_of (rev (written c df))) = set (targets c)"
  using targets_written [of c df]
  by (simp add: dom_map_of_conv_image_fst) (metis list.set_map)

lemma same_inputs_refl: "same_inputs df df"
  by (simp add: same_inputs_def)

lemma same_inputs_assign:
  assumes "same_inputs df D"
  shows "same_inputs (assign_all (written c D') df) D"
proof -
  have "map_of (columns (assign_all (written c D') df)) name = map_of (columns df) name"
    if "name \<in> {''Low'', ''High'', ''Close''}" for name
  proof -
    have "name \<notin> dom (map_of (rev (written c D')))"
      unfolding dom_written using inputs_not_targets [of name c] that by auto
    then show ?thesis
      by (simp add: map_of_assign_all map_add_dom_app_simps)
  qed
  then show ?thesis
    using assms by (simp add: same_inputs_def)
qed

lemma column_cong:
  "map_of (columns df) name = map_of (columns df') name \<Longrightarrow> column df name = column df' name"
  by (simp add: column_def getitem_def)

lemma written_cong:
  assumes "same_inputs df df'"
  shows "written c df = written c df'"
proof -
  have "column df ''Low'' = column df' ''Low''" "column df ''High'' = column df' ''High''"
    "column df ''Close'' = column df' ''Close''"
    using assms by (auto simp: same_inputs_def intro!: column_cong)
  then show ?thesis
    by (cases c) simp_all
qed

lemma present_cong:
  assumes "same_inputs df df'"
  shows "list_all (has_column df) (required_columns c) =
         list_all (has_column df') (required_columns c)"
  using assms by (cases c) (auto simp: same_inputs_def has_column_def)

lemma run_all_returned_iff:
  assumes "same_inputs (data s0) D"
  shows "run_all cs s0 = Returned s \<longleftrightarrow>
     (\<forall>c\<in>set cs. list_all (has_column D) (required_columns c) \<and> valid_params c) \<and>
     s = s0\<lparr>data := fold (\<lambda>c. assign_all (written c D)) cs (data s0)\<rparr>"
  using assms
proof (induction cs arbitrary: s0)
  case Nil
  show ?case by auto
next
  case (Cons c cs)
  let ?s1 = "s0\<lparr>data := assign_all (written c D) (data s0)\<rparr>"
  have step: "run c s0 = Returned s1 \<longleftrightarrow>
      list_all (has_column D) (required_columns c) \<and> valid_params c \<and> s1 = ?s1" for s1
    unfolding run_returned_iff
    using written_cong [OF Cons.prems, of c] present_cong [OF Cons.prems, of c] by simp
  have s1: "same_inputs (data ?s1) D"
    using same_inputs_assign [OF Cons.prems] by simp
  show ?case
  proof (cases "run c s0")
    case (Returned s1)
    then have "s1 = ?s1" and ok: "list_all (has_column D) (required_columns c) \<and> valid_params c"
      using step by auto
    then show ?thesis
      using Returned Cons.IH [OF s1] by auto
  next
    case (Raised e s1)
    then have "\<not> (list_all (has_column D) (required_columns c) \<and> valid_params c)"
      using step [of ?s1] by auto
    then show ?thesis
      using Raised by auto
  qed
qed

lemma index_fold_assign:
  "index (fold (\<lambda>c. assign_all (written c D)) cs df) = index df"
  by (induction cs arbitrary: df) (simp_all add: index_assign_all)

lemma map_of_fold_assign:
  "map_of (columns (fold (\<lambda>c. assign_all (written c D)) cs df)) =
   fold (\<lambda>c m. m ++ map_of (rev (written c D))) cs (map_of (columns df))"
  by (induction cs arbitrary: df) (simp_all add: map_of_assign_all)

lemma same_operation_sym: "same_operation a b = same_operation b a"
  by (cases a; cases b) simp_all

lemma different_targets:
  "\<not> same_operation a b \<Longrightarrow> set (targets a) \<inter> set (targets b) = {}"
  by (cases a; cases b) simp_all

lemma different_operations_pair:
  assumes "different_operations cs" and "a \<in> set cs" and "b \<in> set cs" and "a \<noteq> b"
  shows "\<not> same_operation a b"
  using assms
proof (induction cs)
  case Nil
  then show ?case by simp
next
  case (Cons c cs)
  have head: "\<not> same_operation c d" if "d \<in> set cs" for d
    using Cons.prems(1) that by (simp add: list_all_iff)
  consider "a = c" "b \<in> set cs" | "b = c" "a \<in> set cs" | "a \<in> set cs" "b \<in> set cs"
    using Cons.prems by auto
  then show ?case
  proof cases
    case 1
    then show ?thesis using head by simp
  next
    case 2
    then show ?thesis using head [of a] same_operation_sym [of a c] by simp
  next
    case 3
    then show ?thesis using Cons by simp
  qed
qed

lemma writes_commute:
  assumes "different_operations cs" and "a \<in> set cs" and "b \<in> set cs"
  shows "(\<lambda>m. m ++ map_of (rev (written a D))) \<circ> (\<lambda>m. m ++ map_of (rev (written b D))) =
         (\<lambda>m. m ++ map_of (rev (written b D))) \<circ> (\<lambda>m. m ++ map_of (rev (written a D)))"
proof (cases "a = b")
  case True
  then show ?thesis by simp
next
  case False
  have "dom (map_of (rev (written a D))) \<inter> dom (map_of (rev (written b D))) = {}"
    unfolding dom_written
    using different_targets [OF different_operations_pair [OF assms False]] .
  then have "map_of (rev (written a D)) ++ map_of (rev (written b D)) =
             map_of (rev (written b D)) ++ map_of (rev (written a D))"
    by (rule map_add_comm)
  then have "(m ++ map_of (rev (written b D))) ++ map_of (rev (written a D)) =
             (m ++ map_of (rev (written a D))) ++ map_of (rev (written b D))" for m
    by (metis map_add_assoc)
  then show ?thesis
    by (simp add: fun_eq_iff)
qed

lemma run_all_any_order:
  assumes "different_operations cs" and "mset cs' = mset cs"
    and "run_all cs self = Returned s"
  shows "\<exists>s'. run_all cs' self = Returned s' \<and> file_path s' = file_path s \<and>
     index (data s') = index (data s) \<and>
     (\<forall>name. getitem (data s') name = getitem (data s) name)"
proof -
  let ?D = "data self"
  let ?f = "\<lambda>c. assign_all (written c ?D)"
  let ?g = "\<lambda>c m. m ++ map_of (rev (written c ?D))"
  note iff = run_all_returned_iff [OF same_inputs_refl, where ?s0.0 = self]
  from assms(3) have ok: "\<forall>c\<in>set cs. list_all (has_column ?D) (required_columns c) \<and> valid_params c"
    and s: "s = self\<lparr>data := fold ?f cs ?D\<rparr>"
    unfolding iff by simp_all
  have "set cs' = set cs"
    using assms(2) by (rule mset_eq_setD)
  then have run': "run_all cs' self = Returned (self\<lparr>data := fold ?f cs' ?D\<rparr>)"
    unfolding iff using ok by simp
  have "fold ?g cs = fold ?g cs'"
    by (rule fold_multiset_equiv) (use assms(1,2) writes_commute in auto)
  then have "map_of (columns (fold ?f cs' ?D)) = map_of (columns (fold ?f cs ?D))"
    by (simp add: map_of_fold_assign)
  then have "getitem (fold ?f cs' ?D) name = getitem (fold ?f cs ?D) name" for name
    by (simp add: getitem_def)
  then show ?thesis
    using run' by (simp add: s index_fold_assign)
qed

lemma map_of_others:
  "name \<notin> K \<Longrightarrow> map_of (filter (\<lambda>p. fst p \<notin> K) al) name = map_of al name"
  by (induction al) auto

lemma run_other_columns:
  assumes "name \<notin> set (targets c)"
  shows "getitem (data (state_of (run c self))) name = getitem (data self) name"
proof -
  have "filter (\<lambda>p. fst p \<notin> set (targets c)) (columns (data (state_of (run c self)))) =
        filter (\<lambda>p. fst p \<notin> set (targets c)) (columns (data self))"
    using run_frame [of c self] by blast
  then have "map_of (columns (data (state_of (run c self)))) name =
             map_of (columns (data self)) name"
    using map_of_others [OF assms] by metis
  then show ?thesis
    by (simp add: getitem_def)
qed

lemma run_all_returns:
  assumes "\<forall>c\<in>set cs. list_all (has_column (data self)) (required_columns c) \<and> valid_params c"
  shows "\<exists>s. run_all cs self = Returned s"
  using assms run_all_returned_iff [OF same_inputs_refl, of cs self] by simp

text \<open>
  Claim C9. For every table and every call of an indicator method, whether it returns
  or raises: the file path and the Date index are untouched; the columns other than the
  targets of the call are the same, with the same cells and in the same order, so the
  input columns Open, High, Low, Close and Volume are unchanged; and a table with one
  cell per row in every column stays so, so no row is removed. Consequently, calls of
  different operations that return when made in one order return when made in any other
  order, and leave the same index and, under every column name, the same cells.
\<close>

theorem frame_effect:
  "file_path (state_of (run c self)) = file_path self \<and>
   index (data (state_of (run c self))) = index (data self) \<and>
   filter (\<lambda>p. fst p \<notin> set (targets c)) (columns (data (state_of (run c self)))) =
     filter (\<lambda>p. fst p \<notin> set (targets c)) (columns (data self)) \<and>
   (\<forall>name\<in>{''Open'', ''High'', ''Low'', ''Close'', ''Volume''}.
      getitem (data (state_of (run c self))) name = getitem (data self) name) \<and>
   (wf_frame (data self) \<longrightarrow> wf_frame (data (state_of (run c self)))) \<and>
   (different_operations cs \<and> mset cs' = mset cs \<and> run_all cs self = Returned s \<longrightarrow>
      (\<exists>s'. run_all cs' self = Returned s' \<and> file_path s' = file_path s \<and>
         index (data s') = index (data s) \<and>
         (\<forall>name. getitem (data s') name = getitem (data s) name)))"
proof -
  have "getitem (data (state_of (run c self))) name = getitem (data self) name"
    if "name \<in> {''Open'', ''High'', ''Low'', ''Close'', ''Volume''}" for name
    using inputs_not_targets [OF that] by (rule run_other_columns)
  then show ?thesis
    using run_frame [of c self] run_wf [of self c] run_all_any_order [of cs cs' self s]
    by blast
qed

theorem frame_effect_witness:
  "\<exists>s s'.
     run_all [SMA 2, RSI 2, Stochastic 2 2] \<lparr>file_path = ''prices.csv'',
         data = \<lparr>index = [1, 2, 3],
                   columns = [(''Low'', [Fin 1, Fin 1, Fin 2]),
                              (''High'', [Fin 2, Fin 3, Fin 4]),
                              (''Close'', [Fin 1, Fin 2, Fin 4])]\<rparr>\<rparr> = Returned s \<and>
     run_all [Stochastic 2 2, SMA 2, RSI 2] \<lparr>file_path = ''prices.csv'',
         data = \<lparr>index = [1, 2, 3],
                   columns = [(''Low'', [Fin 1, Fin 1, Fin 2]),
                              (''High'', [Fin 2, Fin 3, Fin 4]),
                              (''Close'', [Fin 1, Fin 2, Fin 4])]\<rparr>\<rparr> = Returned s' \<and>
     index (data s') = index (data s) \<and>
     (\<forall>name. getitem (data s') name = getitem (data s) name) \<and>
     getitem (data (state_of (run (RSI 2) s))) ''Close'' = getitem (data s) ''Close'' \<and>
     index (data (state_of (run (RSI 2) s))) = index (data s) \<and>
     wf_frame (data (state_of (run (MACD 12 26 9) \<lparr>file_path = ''prices.csv'',
         data = \<lparr>index = [1, 2, 3],
                   columns = [(''Low'', [Fin 1, Fin 1, Fin 2]),
                              (''High'', [Fin 2, Fin 3, Fin 4]),
                              (''Close'', [Fin 1, Fin 2, Fin 4])]\<rparr>\<rparr>)))"
proof -
  let ?self = "\<lparr>file_path = ''prices.csv'',
         data = \<lparr>index = [1, 2, 3],
                   columns = [(''Low'', [Fin 1, Fin 1, Fin 2]),
                              (''High'', [Fin 2, Fin 3, Fin 4]),
                              (''Close'', [Fin 1, Fin 2, Fin 4])]\<rparr>\<rparr>"
  let ?cs = "[SMA 2, RSI 2, Stochastic 2 2]"
  let ?cs' = "[Stochastic 2 2, SMA 2, RSI 2]"
  have "\<exists>s. run_all ?cs ?self = Returned s"
    by (rule run_all_returns) (simp add: has_column_def)
  then obtain s where s: "run_all ?cs ?self = Returned s" ..
  have d: "different_operations ?cs" and m: "mset ?cs' = mset ?cs"
    by simp_all
  from frame_effect [where cs = ?cs and cs' = ?cs' and self = ?self and s = s] d m s
  obtain s' where "run_all ?cs' ?self = Returned s'" "index (data s') = index (data s)"
    "\<forall>name. getitem (data s') name = getitem (data s) name"
    by blast
  moreover from frame_effect [where c = "RSI 2" and self = s]
  have "getitem (data (state_of (run (RSI 2) s))) ''Close'' = getitem (data s) ''Close''"
    "index (data (state_of (run (RSI 2) s))) = index (data s)"
    by simp_all
  moreover have "wf_frame (data ?self)"
    by (simp add: wf_frame_def)
  with frame_effect [where c = "MACD 12 26 9" and self = ?self and cs = "[]" and cs' = "[]"
      and s = ?self]
  have "wf_frame (data (state_of (run (MACD 12 26 9) ?self)))"
    by blast
  ultimately show ?thesis
    using s by blast
qed

subsection \<open>Column names\<close>
















end
